theory Spec2Isabelle
  imports Main "HOL-Library.Word"
begin

section \<open>Machine types of \<open>consensus/params.h\<close>\<close>

text \<open>
  The header computes on fixed-width integers only. \<open>unsigned\<close> and \<open>int\<close> are 32 bits
  wide, \<open>int64_t\<close> (and \<open>CAmount\<close>, its alias in \<open>amount.h\<close>) 64 bits. A word carries the
  bit pattern; whether it is read unsigned (\<open>uint\<close>, \<open><\<close>) or in two's complement
  (\<open>sint\<close>, \<open><s\<close>) is decided by the operation, as the C++ type decides it.
\<close>

type_synonym unsigned = "32 word"
type_synonym cint = "32 word"
type_synonym int64_t = "64 word"
type_synonym CAmount = "64 word"
type_synonym uint256 = "256 word"

text \<open>
  C++ \<open>/\<close> on signed operands truncates towards zero, whereas \<open>div\<close> on \<open>int\<close> rounds
  down. \<open>trunc_div\<close> is the quotient on mathematical integers, \<open>int64_div\<close> the machine
  operation on two \<open>int64_t\<close>.
\<close>

definition trunc_div :: "int \<Rightarrow> int \<Rightarrow> int" where
  "trunc_div a b = sgn a * sgn b * (\<bar>a\<bar> div \<bar>b\<bar>)"

definition int64_div :: "int64_t \<Rightarrow> int64_t \<Rightarrow> int64_t" where
  "int64_div a b = word_of_int (trunc_div (sint a) (sint b))"

text \<open>\<open>static_cast<int>\<close> of an \<open>unsigned\<close>: the same 32 bits, from then on read signed.\<close>

definition static_cast_int :: "unsigned \<Rightarrow> cint" where
  "static_cast_int n = n"

section \<open>The rule classes\<close>

text \<open>
  \<open>ConsensusRules\<close> is the interface (both methods pure virtual);
  \<open>MainNetConsensus : ConsensusRules\<close>, \<open>TestNetConsensus : MainNetConsensus\<close> and
  \<open>RegTestConsensus : TestNetConsensus\<close> are the three implementations.
\<close>

datatype rules_class = ConsensusRules | MainNetConsensus | TestNetConsensus | RegTestConsensus

fun base_class :: "rules_class \<Rightarrow> rules_class option" where
  "base_class ConsensusRules = None"
| "base_class MainNetConsensus = Some ConsensusRules"
| "base_class TestNetConsensus = Some MainNetConsensus"
| "base_class RegTestConsensus = Some TestNetConsensus"

fun class_depth :: "rules_class \<Rightarrow> nat" where
  "class_depth ConsensusRules = 0"
| "class_depth MainNetConsensus = 1"
| "class_depth TestNetConsensus = 2"
| "class_depth RegTestConsensus = 3"

subsection \<open>Method bodies\<close>

definition MainNetConsensus_NameExpirationDepth :: "unsigned \<Rightarrow> unsigned" where
  "MainNetConsensus_NameExpirationDepth nHeight =
     (if nHeight < 24000 then 12000
      else if nHeight < 48000 then nHeight - 12000
      else 36000)"

text \<open>
  \<open>COIN\<close> is declared in \<open>amount.h\<close>, which is not part of the sources at hand; the
  methods that read it take it as their first argument.
\<close>

definition MainNetConsensus_MinNameCoinAmount :: "CAmount \<Rightarrow> unsigned \<Rightarrow> CAmount" where
  "MainNetConsensus_MinNameCoinAmount COIN nHeight =
     (if nHeight < 212500 then 0 else int64_div COIN 100)"

definition TestNetConsensus_MinNameCoinAmount :: "CAmount \<Rightarrow> unsigned \<Rightarrow> CAmount" where
  "TestNetConsensus_MinNameCoinAmount COIN nHeight = int64_div COIN 100"

definition RegTestConsensus_NameExpirationDepth :: "unsigned \<Rightarrow> unsigned" where
  "RegTestConsensus_NameExpirationDepth nHeight = 30"

subsection \<open>Virtual dispatch\<close>

text \<open>
  What each class declares itself: \<open>None\<close> where the class has no body for the method
  (pure virtual in \<open>ConsensusRules\<close>, not redeclared in a derived class).
\<close>

fun declares_NameExpirationDepth :: "rules_class \<Rightarrow> (unsigned \<Rightarrow> unsigned) option" where
  "declares_NameExpirationDepth ConsensusRules = None"
| "declares_NameExpirationDepth MainNetConsensus = Some MainNetConsensus_NameExpirationDepth"
| "declares_NameExpirationDepth TestNetConsensus = None"
| "declares_NameExpirationDepth RegTestConsensus = Some RegTestConsensus_NameExpirationDepth"

fun declares_MinNameCoinAmount :: "rules_class \<Rightarrow> (CAmount \<Rightarrow> unsigned \<Rightarrow> CAmount) option" where
  "declares_MinNameCoinAmount ConsensusRules = None"
| "declares_MinNameCoinAmount MainNetConsensus = Some MainNetConsensus_MinNameCoinAmount"
| "declares_MinNameCoinAmount TestNetConsensus = Some TestNetConsensus_MinNameCoinAmount"
| "declares_MinNameCoinAmount RegTestConsensus = None"

text \<open>
  The final overrider of a virtual method for an object of dynamic class \<open>c\<close>: the body
  declared by \<open>c\<close>, else the one its base class ends up with. \<open>None\<close> means that no class
  on the way up has a body, i.e. the method is still pure virtual.
\<close>

function final_overrider :: "(rules_class \<Rightarrow> 'm option) \<Rightarrow> rules_class \<Rightarrow> 'm option" where
  "final_overrider declares c =
     (case declares c of
        Some m \<Rightarrow> Some m
      | None \<Rightarrow> (case base_class c of
                   None \<Rightarrow> None
                 | Some b \<Rightarrow> final_overrider declares b))"
  by pat_completeness auto
termination
proof (relation "measure (\<lambda>(declares, c). class_depth c)")
  show "wf (measure (\<lambda>(declares :: rules_class \<Rightarrow> 'm option, c). class_depth c))"
    by simp
next
  fix declares :: "rules_class \<Rightarrow> 'm option" and c b
  assume "base_class c = Some b"
  then show "((declares, b), (declares, c)) \<in> measure (\<lambda>(declares, c). class_depth c)"
    by (cases c) auto
qed

declare final_overrider.simps [simp del]

text \<open>
  A call through a \<open>ConsensusRules\<close> pointer whose target has dynamic class \<open>c\<close>. The
  result is \<open>None\<close> when there is no body to run.
\<close>

definition NameExpirationDepth :: "rules_class \<Rightarrow> unsigned \<Rightarrow> unsigned option" where
  "NameExpirationDepth c nHeight =
     map_option (\<lambda>m. m nHeight) (final_overrider declares_NameExpirationDepth c)"

definition MinNameCoinAmount :: "CAmount \<Rightarrow> rules_class \<Rightarrow> unsigned \<Rightarrow> CAmount option" where
  "MinNameCoinAmount COIN c nHeight =
     map_option (\<lambda>m. m COIN nHeight) (final_overrider declares_MinNameCoinAmount c)"

section \<open>Deployments and parameters\<close>

datatype DeploymentPos = DEPLOYMENT_TESTDUMMY

definition MAX_VERSION_BITS_DEPLOYMENTS :: nat where
  "MAX_VERSION_BITS_DEPLOYMENTS = 1"

record BIP9Deployment =
  bit_pos :: cint
  nStartTime :: int64_t
  nTimeout :: int64_t

definition NO_TIMEOUT :: int64_t where
  "NO_TIMEOUT = 9223372036854775807"

definition ALWAYS_ACTIVE :: int64_t where
  "ALWAYS_ACTIVE = - 1"

record Params =
  hashGenesisBlock :: uint256
  nSubsidyHalvingInterval :: cint
  BIP16Height :: cint
  BIP34Height :: cint
  BIP34Hash :: uint256
  BIP65Height :: cint
  BIP66Height :: cint
  nRuleChangeActivationThreshold :: "32 word"
  nMinerConfirmationWindow :: "32 word"
  vDeployments :: "BIP9Deployment list"
  powLimit :: uint256
  fPowAllowMinDifficultyBlocks :: bool
  nMinDifficultySince :: int64_t
  fPowNoRetargeting :: bool
  nPowTargetSpacing :: int64_t
  nPowTargetTimespan :: int64_t
  nMinimumChainWork :: uint256
  defaultAssumeValid :: uint256
  nAuxpowChainId :: "32 word"
  nAuxpowStartHeight :: cint
  fStrictChainId :: bool
  nLegacyBlocksBefore :: cint
  rules :: rules_class

text \<open>
  \<open>nPowTargetTimespan / nPowTargetSpacing\<close> on \<open>int64_t\<close>. The quotient is undefined in
  C++ for a zero divisor and for the one quotient that does not fit
  (\<open>INT64_MIN / -1\<close>); both are \<open>None\<close> here.
\<close>

definition DifficultyAdjustmentInterval :: "'a Params_scheme \<Rightarrow> int64_t option" where
  "DifficultyAdjustmentInterval p =
     (if nPowTargetSpacing p = 0 then None
      else if sint (nPowTargetTimespan p) = - (2 ^ 63) \<and> sint (nPowTargetSpacing p) = - 1
        then None
      else Some (int64_div (nPowTargetTimespan p) (nPowTargetSpacing p)))"

definition AllowMinDifficultyBlocks :: "'a Params_scheme \<Rightarrow> int64_t \<Rightarrow> bool" where
  "AllowMinDifficultyBlocks p nBlockTime =
     (if \<not> fPowAllowMinDifficultyBlocks p then False
      else nMinDifficultySince p <s nBlockTime)"

definition AllowLegacyBlocks :: "'a Params_scheme \<Rightarrow> unsigned \<Rightarrow> bool" where
  "AllowLegacyBlocks p nHeight =
     (if nLegacyBlocksBefore p <s 0 then True
      else static_cast_int nHeight <s nLegacyBlocksBefore p)"

section \<open>A concrete parameter object\<close>

text \<open>
  The queries above are evaluated below on concrete objects. \<open>zero_Params\<close> has every
  field zero, false or zero-filled and \<open>MainNetConsensus\<close> rules; an evaluation sets
  the fields it reads by record update.
\<close>

definition zero_Params :: Params where
  "zero_Params =
     \<lparr>hashGenesisBlock = 0, nSubsidyHalvingInterval = 0, BIP16Height = 0, BIP34Height = 0,
      BIP34Hash = 0, BIP65Height = 0, BIP66Height = 0, nRuleChangeActivationThreshold = 0,
      nMinerConfirmationWindow = 0,
      vDeployments = [\<lparr>bit_pos = 0, nStartTime = 0, nTimeout = 0\<rparr>],
      powLimit = 0, fPowAllowMinDifficultyBlocks = False, nMinDifficultySince = 0,
      fPowNoRetargeting = False, nPowTargetSpacing = 0, nPowTargetTimespan = 0,
      nMinimumChainWork = 0, defaultAssumeValid = 0, nAuxpowChainId = 0,
      nAuxpowStartHeight = 0, fStrictChainId = False, nLegacyBlocksBefore = 0,
      rules = MainNetConsensus\<rparr>"

section \<open>Dispatch lemmas\<close>

lemma final_NameExpirationDepth_Main:
  "final_overrider declares_NameExpirationDepth MainNetConsensus
     = Some MainNetConsensus_NameExpirationDepth"
  by (simp add: final_overrider.simps)

lemma final_NameExpirationDepth_Test:
  "final_overrider declares_NameExpirationDepth TestNetConsensus
     = Some MainNetConsensus_NameExpirationDepth"
  by (simp add: final_overrider.simps)

lemma final_NameExpirationDepth_RegTest:
  "final_overrider declares_NameExpirationDepth RegTestConsensus
     = Some RegTestConsensus_NameExpirationDepth"
  by (simp add: final_overrider.simps)

lemma final_MinNameCoinAmount_Main:
  "final_overrider declares_MinNameCoinAmount MainNetConsensus
     = Some MainNetConsensus_MinNameCoinAmount"
  by (simp add: final_overrider.simps)

lemma final_MinNameCoinAmount_Test:
  "final_overrider declares_MinNameCoinAmount TestNetConsensus
     = Some TestNetConsensus_MinNameCoinAmount"
  by (simp add: final_overrider.simps)

lemma final_MinNameCoinAmount_RegTest:
  "final_overrider declares_MinNameCoinAmount RegTestConsensus
     = Some TestNetConsensus_MinNameCoinAmount"
  by (simp add: final_overrider.simps)

lemma NameExpirationDepth_Main:
  "NameExpirationDepth MainNetConsensus h = Some (MainNetConsensus_NameExpirationDepth h)"
  by (simp add: NameExpirationDepth_def final_NameExpirationDepth_Main)

lemma NameExpirationDepth_Test:
  "NameExpirationDepth TestNetConsensus h = Some (MainNetConsensus_NameExpirationDepth h)"
  by (simp add: NameExpirationDepth_def final_NameExpirationDepth_Test)

lemma NameExpirationDepth_RegTest:
  "NameExpirationDepth RegTestConsensus h = Some (RegTestConsensus_NameExpirationDepth h)"
  by (simp add: NameExpirationDepth_def final_NameExpirationDepth_RegTest)

lemma MinNameCoinAmount_Main:
  "MinNameCoinAmount COIN MainNetConsensus h = Some (MainNetConsensus_MinNameCoinAmount COIN h)"
  by (simp add: MinNameCoinAmount_def final_MinNameCoinAmount_Main)

lemma MinNameCoinAmount_Test:
  "MinNameCoinAmount COIN TestNetConsensus h = Some (TestNetConsensus_MinNameCoinAmount COIN h)"
  by (simp add: MinNameCoinAmount_def final_MinNameCoinAmount_Test)

lemma MinNameCoinAmount_RegTest:
  "MinNameCoinAmount COIN RegTestConsensus h = Some (TestNetConsensus_MinNameCoinAmount COIN h)"
  by (simp add: MinNameCoinAmount_def final_MinNameCoinAmount_RegTest)

text \<open>The interface itself has no body to run: a call on it would be a pure virtual call.\<close>

lemma ConsensusRules_pure_virtual:
  "NameExpirationDepth ConsensusRules h = None"
  "MinNameCoinAmount COIN ConsensusRules h = None"
  by (simp_all add: NameExpirationDepth_def MinNameCoinAmount_def final_overrider.simps)

section \<open>Truncating division on \<open>int64_t\<close>\<close>

text \<open>
  \<open>trunc_div\<close> is the quotient C++ prescribes: what is left over is smaller than the
  divisor and has the sign of the dividend (\<open>trunc_div_remainder\<close>). On \<open>int64_t\<close> the
  quotient fits unless \<open>INT64_MIN\<close> is divided by \<open>-1\<close> (\<open>sint_int64_div\<close>).
\<close>

lemma abs_div_abs_nonneg: "0 \<le> \<bar>a :: int\<bar> div \<bar>b\<bar>"
  by (simp add: pos_imp_zdiv_nonneg_iff div_int_pos_iff)

lemma trunc_div_abs: "\<bar>trunc_div a b\<bar> = (if a = 0 \<or> b = 0 then 0 else \<bar>a\<bar> div \<bar>b\<bar>)"
  using abs_div_abs_nonneg [of a b]
  by (simp add: trunc_div_def abs_mult abs_sgn_eq)

lemma trunc_div_abs_le: "\<bar>trunc_div a b\<bar> \<le> \<bar>a\<bar>"
proof (cases "a = 0 \<or> b = 0")
  case True
  then show ?thesis by (simp add: trunc_div_abs)
next
  case False
  then have "0 < \<bar>a\<bar>" by simp
  then have "\<bar>a\<bar> div \<bar>b\<bar> \<le> \<bar>a\<bar>" by (rule int_div_le_self)
  with False show ?thesis by (simp add: trunc_div_abs)
qed

lemma trunc_div_neg1: "trunc_div a (- 1) = - a"
  by (simp add: trunc_div_def  mult_sgn_abs)

lemma trunc_div_min_le:
  assumes "b \<noteq> - 1"
  shows "trunc_div (- (2 ^ 63)) b < 2 ^ 63"
proof -
  consider "b = 0" | "0 < b" | "b \<le> - 2" using assms by linarith
  then show ?thesis
  proof cases
    case 1
    then show ?thesis by (simp add: trunc_div_def)
  next
    case 2
    then have "trunc_div (- (2 ^ 63)) b = - (2 ^ 63 div b)"
      by (simp add: trunc_div_def)
    moreover from 2 have "(0::int) \<le> 2 ^ 63 div b"
      by (simp add: pos_imp_zdiv_nonneg_iff)
    ultimately show ?thesis by simp
  next
    case 3
    then have "trunc_div (- (2 ^ 63)) b = 2 ^ 63 div (- b)"
      by (simp add: trunc_div_def)
    moreover from 3 have "(2 ^ 63 :: int) div (- b) \<le> 2 ^ 63 div 2"
      by (intro zdiv_mono2) simp_all
    ultimately show ?thesis by simp
  qed
qed

lemma trunc_div_range:
  assumes a: "- (2 ^ 63) \<le> a" "a < 2 ^ 63" and nov: "\<not> (a = - (2 ^ 63) \<and> b = - 1)"
  shows "- (2 ^ 63) \<le> trunc_div a b \<and> trunc_div a b < 2 ^ 63"
proof (cases "a = - (2 ^ 63)")
  case False
  with a have "\<bar>a\<bar> < 2 ^ 63" by linarith
  with trunc_div_abs_le [of a b] show ?thesis by linarith
next
  case True
  with nov have "b \<noteq> - 1" by simp
  then have "trunc_div a b < 2 ^ 63"
    unfolding True by (rule trunc_div_min_le)
  moreover from trunc_div_abs_le [of a b] True have "- (2 ^ 63) \<le> trunc_div a b"
    by simp
  ultimately show ?thesis by simp
qed

lemma sint_int64_div:
  assumes "\<not> (sint a = - (2 ^ 63) \<and> sint b = - 1)"
  shows "sint (int64_div a b) = trunc_div (sint a) (sint b)"
proof -
  have "- (2 ^ 63) \<le> sint a" "sint a < 2 ^ 63"
    using sint_ge [of a] sint_lt [of a] by simp_all
  then have "- (2 ^ 63) \<le> trunc_div (sint a) (sint b) \<and> trunc_div (sint a) (sint b) < 2 ^ 63"
    using assms by (rule trunc_div_range)
  then show ?thesis
    by (simp add: int64_div_def sint_sbintrunc' signed_take_bit_int_eq_self)
qed

lemma sint_int64_div_100: "sint (int64_div c 100) = trunc_div (sint c) 100"
  using sint_int64_div [of c 100] by simp

lemma trunc_div_remainder:
  assumes "b \<noteq> 0"
  shows "\<bar>a - trunc_div a b * b\<bar> < \<bar>b\<bar> \<and> 0 \<le> (a - trunc_div a b * b) * sgn a"
proof -
  have m: "0 \<le> \<bar>a\<bar> mod \<bar>b\<bar>" "\<bar>a\<bar> mod \<bar>b\<bar> < \<bar>b\<bar>"
    using assms by simp_all
  consider "a = 0" | "0 < a" "0 < b" | "0 < a" "b < 0" | "a < 0" "0 < b" | "a < 0" "b < 0"
    using assms by linarith
  then show ?thesis
  proof cases
    case 1
    then show ?thesis using assms by (simp add: trunc_div_def)
  next
    case 2
    then have "a - trunc_div a b * b = \<bar>a\<bar> mod \<bar>b\<bar>"
      by (simp add: trunc_div_def minus_div_mult_eq_mod)
    with m 2 show ?thesis by simp
  next
    case 3
    then have "a - trunc_div a b * b = \<bar>a\<bar> mod \<bar>b\<bar>"
      using minus_div_mult_eq_mod [of a "- b"] by (simp add: trunc_div_def)
    with m 3 show ?thesis by simp
  next
    case 4
    then have "a - trunc_div a b * b = - (\<bar>a\<bar> mod \<bar>b\<bar>)"
      using minus_div_mult_eq_mod [of "- a" b] by (simp add: trunc_div_def)
    with m 4 show ?thesis by simp
  next
    case 5
    then have "a - trunc_div a b * b = - (\<bar>a\<bar> mod \<bar>b\<bar>)"
      using minus_div_mult_eq_mod [of "- a" "- b"] by (simp add: trunc_div_def)
    with m 5 show ?thesis by simp
  qed
qed

section \<open>Name expiration depth\<close>

lemma uint_Main_NameExpirationDepth:
  "uint (MainNetConsensus_NameExpirationDepth h) =
     (if uint h < 24000 then 12000 else if uint h < 48000 then uint h - 12000 else 36000)"
  by (simp add: MainNetConsensus_NameExpirationDepth_def word_less_def uint_sub_if' word_le_def)

lemma Main_boundary_mono:
  assumes "uint h1 \<le> uint h2"
  shows "uint h1 - uint (MainNetConsensus_NameExpirationDepth h1)
       \<le> uint h2 - uint (MainNetConsensus_NameExpirationDepth h2)"
  using assms by (simp add: uint_Main_NameExpirationDepth)

lemma uint_succ_small: "uint (h :: unsigned) \<le> 1000000 \<Longrightarrow> uint (h + 1) = uint h + 1"
  by (simp add: uint_word_ariths take_bit_int_eq_self)

text \<open>
  Claim C1. On the Main profile the exact integer \<open>height - NameExpirationDepth(height)\<close>
  (it may be negative) never decreases when the height grows: for all heights
  \<open>h1 \<le> h2\<close> it is at \<open>h1\<close> at most what it is at \<open>h2\<close>, and in particular from \<open>h\<close> to
  \<open>h + 1\<close> for every \<open>h\<close> up to 1000000, the breakpoints 24000 and 48000 included.
\<close>

theorem Main_expire_boundary_mono:
  "(h1 \<le> h2 \<longrightarrow>
      (\<exists>d1 d2. NameExpirationDepth MainNetConsensus h1 = Some d1
             \<and> NameExpirationDepth MainNetConsensus h2 = Some d2
             \<and> uint h1 - uint d1 \<le> uint h2 - uint d2))
   \<and> (uint h \<le> 1000000 \<longrightarrow>
      (\<exists>d d'. NameExpirationDepth MainNetConsensus h = Some d
             \<and> NameExpirationDepth MainNetConsensus (h + 1) = Some d'
             \<and> uint h - uint d \<le> uint (h + 1) - uint d'))"
proof (intro conjI impI)
  assume "h1 \<le> h2"
  then have "uint h1 \<le> uint h2" by (simp add: word_le_def)
  then show "\<exists>d1 d2. NameExpirationDepth MainNetConsensus h1 = Some d1
             \<and> NameExpirationDepth MainNetConsensus h2 = Some d2
             \<and> uint h1 - uint d1 \<le> uint h2 - uint d2"
    by (simp add: NameExpirationDepth_Main Main_boundary_mono)
next
  assume "uint h \<le> 1000000"
  then have "uint h \<le> uint (h + 1)" by (simp add: uint_succ_small)
  then show "\<exists>d d'. NameExpirationDepth MainNetConsensus h = Some d
             \<and> NameExpirationDepth MainNetConsensus (h + 1) = Some d'
             \<and> uint h - uint d \<le> uint (h + 1) - uint d'"
    by (simp add: NameExpirationDepth_Main Main_boundary_mono)
qed

theorem Main_expire_boundary_mono_witness:
  "(23999 :: unsigned) \<le> 24000
   \<and> (\<exists>d1 d2. NameExpirationDepth MainNetConsensus 23999 = Some d1
             \<and> NameExpirationDepth MainNetConsensus 24000 = Some d2
             \<and> uint (23999 :: unsigned) - uint d1 \<le> uint (24000 :: unsigned) - uint d2)
   \<and> uint (47999 :: unsigned) \<le> 1000000
   \<and> (\<exists>d d'. NameExpirationDepth MainNetConsensus 47999 = Some d
             \<and> NameExpirationDepth MainNetConsensus (47999 + 1) = Some d'
             \<and> uint (47999 :: unsigned) - uint d \<le> uint (47999 + 1 :: unsigned) - uint d')"
  using Main_expire_boundary_mono [of 23999 24000 47999] by simp

text \<open>
  Claim C2. On the Main profile \<open>NameExpirationDepth\<close> is the piecewise function: 12000
  below height 24000, \<open>h - 12000\<close> (without wrap-around) from 24000 up to 47999, and
  36000 from 48000 on; at 0, 23999, 24000, 47999, 48000 and 1000000 it is 12000, 12000,
  12000, 35999, 36000 and 36000.
\<close>

theorem Main_NameExpirationDepth_piecewise:
  "(uint h < 24000 \<longrightarrow> NameExpirationDepth MainNetConsensus h = Some 12000)
   \<and> (24000 \<le> uint h \<and> uint h < 48000 \<longrightarrow>
        NameExpirationDepth MainNetConsensus h = Some (h - 12000)
        \<and> uint (h - 12000) = uint h - 12000)
   \<and> (48000 \<le> uint h \<longrightarrow> NameExpirationDepth MainNetConsensus h = Some 36000)
   \<and> NameExpirationDepth MainNetConsensus 0 = Some 12000
   \<and> NameExpirationDepth MainNetConsensus 23999 = Some 12000
   \<and> NameExpirationDepth MainNetConsensus 24000 = Some 12000
   \<and> NameExpirationDepth MainNetConsensus 47999 = Some 35999
   \<and> NameExpirationDepth MainNetConsensus 48000 = Some 36000
   \<and> NameExpirationDepth MainNetConsensus 1000000 = Some 36000"
proof -
  have general:
    "(uint h < 24000 \<longrightarrow> NameExpirationDepth MainNetConsensus h = Some 12000)
     \<and> (24000 \<le> uint h \<and> uint h < 48000 \<longrightarrow>
          NameExpirationDepth MainNetConsensus h = Some (h - 12000)
          \<and> uint (h - 12000) = uint h - 12000)
     \<and> (48000 \<le> uint h \<longrightarrow> NameExpirationDepth MainNetConsensus h = Some 36000)"
    by (simp add: NameExpirationDepth_Main MainNetConsensus_NameExpirationDepth_def
        word_less_def uint_sub_if')
  have points:
    "NameExpirationDepth MainNetConsensus 0 = Some 12000
     \<and> NameExpirationDepth MainNetConsensus 23999 = Some 12000
     \<and> NameExpirationDepth MainNetConsensus 24000 = Some 12000
     \<and> NameExpirationDepth MainNetConsensus 47999 = Some 35999
     \<and> NameExpirationDepth MainNetConsensus 48000 = Some 36000
     \<and> NameExpirationDepth MainNetConsensus 1000000 = Some 36000"
    by (simp add: NameExpirationDepth_Main MainNetConsensus_NameExpirationDepth_def)
  from general points show ?thesis by blast
qed

theorem Main_NameExpirationDepth_piecewise_witness:
  "uint (100 :: unsigned) < 24000
   \<and> NameExpirationDepth MainNetConsensus 100 = Some 12000
   \<and> 24000 \<le> uint (30000 :: unsigned) \<and> uint (30000 :: unsigned) < 48000
   \<and> NameExpirationDepth MainNetConsensus 30000 = Some 18000
   \<and> 48000 \<le> uint (50000 :: unsigned)
   \<and> NameExpirationDepth MainNetConsensus 50000 = Some 36000"
  using Main_NameExpirationDepth_piecewise [of 100]
    Main_NameExpirationDepth_piecewise [of 30000]
    Main_NameExpirationDepth_piecewise [of 50000]
  by simp

text \<open>
  Claim C7. On the Regtest profile \<open>NameExpirationDepth\<close> returns 30 at every height,
  whatever the argument; in particular at heights 0 and 10000000.
\<close>

theorem RegTest_NameExpirationDepth_30:
  "NameExpirationDepth RegTestConsensus h = Some 30
   \<and> NameExpirationDepth RegTestConsensus 0 = Some 30
   \<and> NameExpirationDepth RegTestConsensus 10000000 = Some 30"
  by (simp add: NameExpirationDepth_RegTest RegTestConsensus_NameExpirationDepth_def)

theorem RegTest_NameExpirationDepth_30_witness:
  "NameExpirationDepth RegTestConsensus 4294967295 = Some 30"
  using RegTest_NameExpirationDepth_30 [of 4294967295] by simp

text \<open>
  Claim C9. The Test profile's \<open>NameExpirationDepth\<close> is the Main profile's at every
  height: \<open>TestNetConsensus\<close> declares no body of its own for it (the only method it
  declares is \<open>MinNameCoinAmount\<close>), so a call runs the body of \<open>MainNetConsensus\<close>.
\<close>

theorem Test_inherits_NameExpirationDepth:
  "NameExpirationDepth TestNetConsensus h = NameExpirationDepth MainNetConsensus h
   \<and> NameExpirationDepth TestNetConsensus h = Some (MainNetConsensus_NameExpirationDepth h)
   \<and> declares_NameExpirationDepth TestNetConsensus = None
   \<and> declares_MinNameCoinAmount TestNetConsensus = Some TestNetConsensus_MinNameCoinAmount"
  by (simp add: NameExpirationDepth_Test NameExpirationDepth_Main)

theorem Test_inherits_NameExpirationDepth_witness:
  "NameExpirationDepth TestNetConsensus 30000 = NameExpirationDepth MainNetConsensus 30000
   \<and> NameExpirationDepth TestNetConsensus 30000 = Some 18000"
proof -
  have d: "MainNetConsensus_NameExpirationDepth 30000 = 18000"
    by (simp add: MainNetConsensus_NameExpirationDepth_def)
  from Test_inherits_NameExpirationDepth [of 30000]
  have "NameExpirationDepth TestNetConsensus 30000 = NameExpirationDepth MainNetConsensus 30000"
    and "NameExpirationDepth TestNetConsensus 30000
      = Some (MainNetConsensus_NameExpirationDepth 30000)"
    by blast+
  then show ?thesis unfolding d by (rule conjI)
qed

section \<open>Minimum locked amount\<close>

text \<open>
  Claim C5. On the Main profile \<open>MinNameCoinAmount\<close> returns 0 at every height below
  212500 and \<open>COIN / 100\<close>, one hundredth of a coin, at every height from 212500 on; in
  particular 0 at heights 0 and 212499 and \<open>COIN / 100\<close> at 212500. The quotient is
  the exact truncated one: dividing by 100 cannot overflow.
\<close>

theorem Main_MinNameCoinAmount_gate:
  "(uint h < 212500 \<longrightarrow> MinNameCoinAmount COIN MainNetConsensus h = Some 0)
   \<and> (212500 \<le> uint h \<longrightarrow>
        MinNameCoinAmount COIN MainNetConsensus h = Some (int64_div COIN 100))
   \<and> sint (int64_div COIN 100) = trunc_div (sint COIN) 100
   \<and> MinNameCoinAmount COIN MainNetConsensus 0 = Some 0
   \<and> MinNameCoinAmount COIN MainNetConsensus 212499 = Some 0
   \<and> MinNameCoinAmount COIN MainNetConsensus 212500 = Some (int64_div COIN 100)"
  by (simp add: MinNameCoinAmount_Main MainNetConsensus_MinNameCoinAmount_def word_less_def
      sint_int64_div_100)

theorem Main_MinNameCoinAmount_gate_witness:
  "uint (212499 :: unsigned) < 212500
   \<and> MinNameCoinAmount 100000000 MainNetConsensus 212499 = Some 0
   \<and> 212500 \<le> uint (212500 :: unsigned)
   \<and> MinNameCoinAmount 100000000 MainNetConsensus 212500 = Some (int64_div 100000000 100)
   \<and> sint (int64_div 100000000 100) = 1000000"
  using Main_MinNameCoinAmount_gate [of 212499 100000000]
    Main_MinNameCoinAmount_gate [of 212500 100000000]
  by (simp add: trunc_div_def)

text \<open>
  Claim C6. On the Test and Regtest profiles \<open>MinNameCoinAmount\<close> returns \<open>COIN / 100\<close>
  at every height: the result does not depend on the height; in particular at heights
  0 and 10000000.
\<close>

theorem Test_RegTest_MinNameCoinAmount_const:
  "MinNameCoinAmount COIN TestNetConsensus h = Some (int64_div COIN 100)
   \<and> MinNameCoinAmount COIN RegTestConsensus h = Some (int64_div COIN 100)
   \<and> sint (int64_div COIN 100) = trunc_div (sint COIN) 100
   \<and> MinNameCoinAmount COIN TestNetConsensus 0 = Some (int64_div COIN 100)
   \<and> MinNameCoinAmount COIN TestNetConsensus 10000000 = Some (int64_div COIN 100)
   \<and> MinNameCoinAmount COIN RegTestConsensus 0 = Some (int64_div COIN 100)
   \<and> MinNameCoinAmount COIN RegTestConsensus 10000000 = Some (int64_div COIN 100)"
  by (simp add: MinNameCoinAmount_Test MinNameCoinAmount_RegTest TestNetConsensus_MinNameCoinAmount_def
      sint_int64_div_100)

theorem Test_RegTest_MinNameCoinAmount_const_witness:
  "MinNameCoinAmount 100000000 TestNetConsensus 0 = Some (int64_div 100000000 100)
   \<and> MinNameCoinAmount 100000000 RegTestConsensus 10000000 = Some (int64_div 100000000 100)
   \<and> sint (int64_div 100000000 100) = 1000000"
  using Test_RegTest_MinNameCoinAmount_const [of 100000000 0]
    Test_RegTest_MinNameCoinAmount_const [of 100000000 10000000]
  by (simp add: trunc_div_def)

section \<open>Queries on the parameters\<close>

text \<open>
  Claim C8. \<open>DifficultyAdjustmentInterval\<close> is \<open>nPowTargetTimespan\<close> divided by
  \<open>nPowTargetSpacing\<close>, truncated towards zero, wherever C++ defines the quotient (the
  spacing is not zero and the pair is not \<open>INT64_MIN\<close>, \<open>-1\<close>): 1209600 and 600 give
  2016, and the pair 1000 and 300, which does not divide evenly, gives 3.
\<close>

theorem DifficultyAdjustmentInterval_truncates:
  "(nPowTargetSpacing p \<noteq> 0
      \<and> \<not> (sint (nPowTargetTimespan p) = - (2 ^ 63) \<and> sint (nPowTargetSpacing p) = - 1) \<longrightarrow>
      (\<exists>r. DifficultyAdjustmentInterval p = Some r
          \<and> sint r = trunc_div (sint (nPowTargetTimespan p)) (sint (nPowTargetSpacing p))))
   \<and> (nPowTargetTimespan p = 1209600 \<and> nPowTargetSpacing p = 600 \<longrightarrow>
        DifficultyAdjustmentInterval p = Some 2016)
   \<and> (nPowTargetTimespan p = 1000 \<and> nPowTargetSpacing p = 300 \<longrightarrow>
        DifficultyAdjustmentInterval p = Some 3)"
proof (intro conjI impI)
  assume a: "nPowTargetSpacing p \<noteq> 0
      \<and> \<not> (sint (nPowTargetTimespan p) = - (2 ^ 63) \<and> sint (nPowTargetSpacing p) = - 1)"
  then have "DifficultyAdjustmentInterval p
      = Some (int64_div (nPowTargetTimespan p) (nPowTargetSpacing p))"
    by (auto simp add: DifficultyAdjustmentInterval_def)
  moreover from a have "sint (int64_div (nPowTargetTimespan p) (nPowTargetSpacing p))
      = trunc_div (sint (nPowTargetTimespan p)) (sint (nPowTargetSpacing p))"
    by (intro sint_int64_div) simp
  ultimately show "\<exists>r. DifficultyAdjustmentInterval p = Some r
          \<and> sint r = trunc_div (sint (nPowTargetTimespan p)) (sint (nPowTargetSpacing p))"
    by simp
next
  assume "nPowTargetTimespan p = 1209600 \<and> nPowTargetSpacing p = 600"
  then show "DifficultyAdjustmentInterval p = Some 2016"
    by (simp add: DifficultyAdjustmentInterval_def int64_div_def trunc_div_def)
next
  assume "nPowTargetTimespan p = 1000 \<and> nPowTargetSpacing p = 300"
  then show "DifficultyAdjustmentInterval p = Some 3"
    by (simp add: DifficultyAdjustmentInterval_def int64_div_def trunc_div_def)
qed

theorem DifficultyAdjustmentInterval_truncates_witness:
  "nPowTargetSpacing (zero_Params\<lparr>nPowTargetSpacing := 300, nPowTargetTimespan := 1000\<rparr>) \<noteq> 0
   \<and> nPowTargetTimespan (zero_Params\<lparr>nPowTargetSpacing := 300, nPowTargetTimespan := 1000\<rparr>) = 1000
   \<and> nPowTargetSpacing (zero_Params\<lparr>nPowTargetSpacing := 300, nPowTargetTimespan := 1000\<rparr>) = 300
   \<and> DifficultyAdjustmentInterval
        (zero_Params\<lparr>nPowTargetSpacing := 300, nPowTargetTimespan := 1000\<rparr>) = Some 3
   \<and> DifficultyAdjustmentInterval
        (zero_Params\<lparr>nPowTargetSpacing := 600, nPowTargetTimespan := 1209600\<rparr>) = Some 2016"
  using DifficultyAdjustmentInterval_truncates
      [of "zero_Params\<lparr>nPowTargetSpacing := 300, nPowTargetTimespan := 1000\<rparr>"]
    DifficultyAdjustmentInterval_truncates
      [of "zero_Params\<lparr>nPowTargetSpacing := 600, nPowTargetTimespan := 1209600\<rparr>"]
  by simp

text \<open>
  Claim C4. \<open>AllowMinDifficultyBlocks\<close> returns false at every block time, the largest
  one included, when \<open>fPowAllowMinDifficultyBlocks\<close> is false. When the flag is true it
  returns true exactly when the block time is strictly greater than
  \<open>nMinDifficultySince\<close>: false at \<open>nMinDifficultySince\<close> itself, true at the block time
  that is one more.
\<close>

theorem AllowMinDifficultyBlocks_strict:
  "(\<not> fPowAllowMinDifficultyBlocks p \<longrightarrow>
        \<not> AllowMinDifficultyBlocks p t \<and> \<not> AllowMinDifficultyBlocks p 9223372036854775807)
   \<and> (fPowAllowMinDifficultyBlocks p \<longrightarrow>
        (AllowMinDifficultyBlocks p t \<longleftrightarrow> sint (nMinDifficultySince p) < sint t))
   \<and> (fPowAllowMinDifficultyBlocks p \<longrightarrow> \<not> AllowMinDifficultyBlocks p (nMinDifficultySince p))
   \<and> (fPowAllowMinDifficultyBlocks p \<and> sint t = sint (nMinDifficultySince p) + 1 \<longrightarrow>
        AllowMinDifficultyBlocks p t)"
  by (simp add: AllowMinDifficultyBlocks_def word_sless_alt)

theorem AllowMinDifficultyBlocks_strict_witness:
  "\<not> fPowAllowMinDifficultyBlocks (zero_Params\<lparr>nMinDifficultySince := 1394838000\<rparr>)
   \<and> \<not> AllowMinDifficultyBlocks (zero_Params\<lparr>nMinDifficultySince := 1394838000\<rparr>)
         9223372036854775807
   \<and> fPowAllowMinDifficultyBlocks
        (zero_Params\<lparr>fPowAllowMinDifficultyBlocks := True, nMinDifficultySince := 1394838000\<rparr>)
   \<and> \<not> AllowMinDifficultyBlocks
        (zero_Params\<lparr>fPowAllowMinDifficultyBlocks := True, nMinDifficultySince := 1394838000\<rparr>)
        1394838000
   \<and> sint (1394838001 :: int64_t)
        = sint (nMinDifficultySince
            (zero_Params\<lparr>fPowAllowMinDifficultyBlocks := True,
                           nMinDifficultySince := 1394838000\<rparr>)) + 1
   \<and> AllowMinDifficultyBlocks
        (zero_Params\<lparr>fPowAllowMinDifficultyBlocks := True, nMinDifficultySince := 1394838000\<rparr>)
        1394838001"
  using AllowMinDifficultyBlocks_strict
      [of "zero_Params\<lparr>nMinDifficultySince := 1394838000\<rparr>" 9223372036854775807]
    AllowMinDifficultyBlocks_strict
      [of "zero_Params\<lparr>fPowAllowMinDifficultyBlocks := True,
                         nMinDifficultySince := 1394838000\<rparr>" 1394838001]
  by (simp add: zero_Params_def)

subsection \<open>Legacy blocks and the conversion of the height\<close>

lemma mod_2p32_upper_half:
  assumes "2147483648 \<le> (x::int)" "x < 4294967296"
  shows "(x + 2147483648) mod 4294967296 = x - 2147483648"
proof (rule int_mod_pos_eq [where q = 1])
  show "x + 2147483648 = 4294967296 * 1 + (x - 2147483648)" by simp
  show "0 \<le> x - 2147483648" using assms by simp
  show "x - 2147483648 < 4294967296" using assms by simp
qed

lemma sint_static_cast_int:
  "sint (static_cast_int h) = (if uint h < 2 ^ 31 then uint h else uint h - 2 ^ 32)"
proof (cases "uint h < 2 ^ 31")
  case True
  moreover have "- (2 ^ 31) \<le> uint h"
    by (rule order_trans [of _ 0]) simp_all
  ultimately have "signed_take_bit 31 (uint h) = uint h"
    by (intro signed_take_bit_int_eq_self) simp_all
  with True show ?thesis by (simp add: static_cast_int_def sint_uint)
next
  case False
  moreover have "uint h < 4294967296" using uint_lt2p [of h] by simp
  ultimately have "(uint h + 2147483648) mod 4294967296 = uint h - 2147483648"
    by (intro mod_2p32_upper_half) simp_all
  with False show ?thesis
    by (simp add: static_cast_int_def sint_uint signed_take_bit_eq_take_bit_shift
        take_bit_eq_mod)
qed

lemma AllowLegacyBlocks_iff:
  "AllowLegacyBlocks p h \<longleftrightarrow>
     sint (nLegacyBlocksBefore p) < 0 \<or> sint (static_cast_int h) < sint (nLegacyBlocksBefore p)"
  by (simp add: AllowLegacyBlocks_def word_sless_alt)

text \<open>
  As an unsigned number the height \<open>2 ^ 31\<close> is not below a cutoff of 100, yet the query
  allows legacy blocks there: read as an \<open>int\<close> that height is negative.
\<close>

theorem AllowLegacyBlocks_height_counterexample:
  "0 \<le> sint (nLegacyBlocksBefore (zero_Params\<lparr>nLegacyBlocksBefore := 100\<rparr>))
   \<and> \<not> (AllowLegacyBlocks (zero_Params\<lparr>nLegacyBlocksBefore := 100\<rparr>) 2147483648
          \<longleftrightarrow> uint (2147483648 :: unsigned)
                < sint (nLegacyBlocksBefore (zero_Params\<lparr>nLegacyBlocksBefore := 100\<rparr>)))"
  by (simp add: AllowLegacyBlocks_def static_cast_int_def word_sless_alt zero_Params_def)

text \<open>
  Claim C3, amended. \<open>AllowLegacyBlocks\<close> returns true at every height when the cutoff
  \<open>nLegacyBlocksBefore\<close> is negative. For a cutoff that is not negative and a height
  below \<open>2 ^ 31\<close> it returns true exactly when the height is below the cutoff. With
  cutoff 100 it is true at height 99 and false at heights 100 and 101; with cutoff -1
  it is true at heights 0 and 10000000.
\<close>

theorem AllowLegacyBlocks_below_2p31:
  "(sint (nLegacyBlocksBefore p) < 0 \<longrightarrow> AllowLegacyBlocks p h)
   \<and> (0 \<le> sint (nLegacyBlocksBefore p) \<and> uint h < 2 ^ 31 \<longrightarrow>
        (AllowLegacyBlocks p h \<longleftrightarrow> uint h < sint (nLegacyBlocksBefore p)))
   \<and> (nLegacyBlocksBefore p = 100 \<longrightarrow>
        AllowLegacyBlocks p 99 \<and> \<not> AllowLegacyBlocks p 100 \<and> \<not> AllowLegacyBlocks p 101)
   \<and> (nLegacyBlocksBefore p = - 1 \<longrightarrow>
        AllowLegacyBlocks p 0 \<and> AllowLegacyBlocks p 10000000)"
proof (intro conjI impI)
  assume "sint (nLegacyBlocksBefore p) < 0"
  then show "AllowLegacyBlocks p h" by (simp add: AllowLegacyBlocks_iff)
next
  assume "0 \<le> sint (nLegacyBlocksBefore p) \<and> uint h < 2 ^ 31"
  then show "AllowLegacyBlocks p h \<longleftrightarrow> uint h < sint (nLegacyBlocksBefore p)"
    by (auto simp add: AllowLegacyBlocks_iff sint_static_cast_int)
next
  assume c: "nLegacyBlocksBefore p = 100"
  show "AllowLegacyBlocks p 99" "\<not> AllowLegacyBlocks p 100" "\<not> AllowLegacyBlocks p 101"
    by (simp_all add: AllowLegacyBlocks_def static_cast_int_def word_sless_alt c)
next
  assume c: "nLegacyBlocksBefore p = - 1"
  show "AllowLegacyBlocks p 0" "AllowLegacyBlocks p 10000000"
    by (simp_all add: AllowLegacyBlocks_def word_sless_alt c)
qed

theorem AllowLegacyBlocks_below_2p31_witness:
  "sint (nLegacyBlocksBefore (zero_Params\<lparr>nLegacyBlocksBefore := - 1\<rparr>)) < 0
   \<and> AllowLegacyBlocks (zero_Params\<lparr>nLegacyBlocksBefore := - 1\<rparr>) 10000000
   \<and> 0 \<le> sint (nLegacyBlocksBefore (zero_Params\<lparr>nLegacyBlocksBefore := 100\<rparr>))
   \<and> uint (99 :: unsigned) < 2 ^ 31
   \<and> AllowLegacyBlocks (zero_Params\<lparr>nLegacyBlocksBefore := 100\<rparr>) 99
   \<and> uint (100 :: unsigned) < 2 ^ 31
   \<and> \<not> AllowLegacyBlocks (zero_Params\<lparr>nLegacyBlocksBefore := 100\<rparr>) 100
   \<and> \<not> AllowLegacyBlocks (zero_Params\<lparr>nLegacyBlocksBefore := 100\<rparr>) 101"
  using AllowLegacyBlocks_below_2p31 [of "zero_Params\<lparr>nLegacyBlocksBefore := - 1\<rparr>" 10000000]
    AllowLegacyBlocks_below_2p31 [of "zero_Params\<lparr>nLegacyBlocksBefore := 100\<rparr>" 99]
    AllowLegacyBlocks_below_2p31 [of "zero_Params\<lparr>nLegacyBlocksBefore := 100\<rparr>" 100]
  by simp

text \<open>
  Claim C10. \<open>AllowLegacyBlocks\<close> compares the height after converting it to a signed
  32-bit \<open>int\<close>. A height of \<open>2 ^ 31\<close> or more wraps to the negative value
  \<open>height - 2 ^ 32\<close>, so for every cutoff that is not negative the query returns true
  there although the height is not below the cutoff.
\<close>

theorem AllowLegacyBlocks_wraps_above_2p31:
  "0 \<le> sint (nLegacyBlocksBefore p) \<and> 2 ^ 31 \<le> uint h \<longrightarrow>
     sint (static_cast_int h) = uint h - 2 ^ 32
     \<and> sint (static_cast_int h) < 0
     \<and> AllowLegacyBlocks p h
     \<and> sint (nLegacyBlocksBefore p) \<le> uint h"
proof
  assume a: "0 \<le> sint (nLegacyBlocksBefore p) \<and> 2 ^ 31 \<le> uint h"
  have "uint h < 2 ^ 32" using uint_lt2p [of h] by simp
  with a have s: "sint (static_cast_int h) = uint h - 2 ^ 32" "sint (static_cast_int h) < 0"
    by (simp_all add: sint_static_cast_int)
  with a have "AllowLegacyBlocks p h" by (simp add: AllowLegacyBlocks_iff)
  moreover have "sint (nLegacyBlocksBefore p) < 2 ^ 31"
    using sint_lt [of "nLegacyBlocksBefore p"] by simp
  with a have "sint (nLegacyBlocksBefore p) \<le> uint h" by simp
  ultimately show "sint (static_cast_int h) = uint h - 2 ^ 32
     \<and> sint (static_cast_int h) < 0
     \<and> AllowLegacyBlocks p h
     \<and> sint (nLegacyBlocksBefore p) \<le> uint h"
    using s by simp
qed

theorem AllowLegacyBlocks_wraps_above_2p31_witness:
  "0 \<le> sint (nLegacyBlocksBefore (zero_Params\<lparr>nLegacyBlocksBefore := 100\<rparr>))
   \<and> 2 ^ 31 \<le> uint (3000000000 :: unsigned)
   \<and> sint (static_cast_int 3000000000) = - 1294967296
   \<and> AllowLegacyBlocks (zero_Params\<lparr>nLegacyBlocksBefore := 100\<rparr>) 3000000000
   \<and> sint (nLegacyBlocksBefore (zero_Params\<lparr>nLegacyBlocksBefore := 100\<rparr>))
        \<le> uint (3000000000 :: unsigned)"
  using AllowLegacyBlocks_wraps_above_2p31
    [of "zero_Params\<lparr>nLegacyBlocksBefore := 100\<rparr>" 3000000000]
  by simp

end
